theory Spec2Isabelle
  imports Complex_Main
begin

section \<open>Python values, exceptions and strings\<close>

text \<open>
  The calculator core is two Python modules: \<^verbatim>\<open>utils/validators.py\<close> and
  \<^verbatim>\<open>utils/calculator_core.py\<close>.  A Python \<^verbatim>\<open>str\<close> is modelled as a
  \<^typ>\<open>string\<close>; a \<^typ>\<open>char\<close> stands for the code point of the same number, so the
  model covers the strings over the code points 0 to 255.  Exceptions are values: a
  function that can raise returns \<open>pyexn + 'a\<close>, with \<open>Inl\<close> for the exception.
\<close>

datatype pyexn =
    ValueError string
  | ZeroDivisionError string
  | IndexError
  | TypeError
  | SyntaxError
  | OverflowError

text \<open>
  The argument of \<^verbatim>\<open>validate_expression\<close> is annotated \<^verbatim>\<open>str\<close>, but the function
  tests \<^verbatim>\<open>isinstance(expression, str)\<close> itself, so the model takes any of the values a
  decoded JSON body can hold.
\<close>

datatype pyobj =
    PStr string
  | PNone
  | PBool bool
  | PInt int
  | PList "pyobj list"

fun truthy :: "pyobj \<Rightarrow> bool" where
  "truthy (PStr s) = (s \<noteq> [])"
| "truthy PNone = False"
| "truthy (PBool b) = b"
| "truthy (PInt i) = (i \<noteq> 0)"
| "truthy (PList xs) = (xs \<noteq> [])"

fun isinstance_str :: "pyobj \<Rightarrow> bool" where
  "isinstance_str (PStr s) = True"
| "isinstance_str _ = False"

text \<open>
  \<^verbatim>\<open>str.isspace\<close>, \<^verbatim>\<open>str.strip\<close> and the regular expression class \<^verbatim>\<open>\s\<close> agree on
  which code points below 256 are whitespace: 9 to 13, 28 to 32, 133 and 160.  The class
  \<^verbatim>\<open>\d\<close> holds, below 256, the ten ASCII digits.
\<close>

definition is_space :: "char \<Rightarrow> bool" where
  "is_space c = (of_char c \<in> set [9, 10, 11, 12, 13, 28, 29, 30, 31, 32, 133, 160 :: nat])"

definition is_digit :: "char \<Rightarrow> bool" where
  "is_digit c = (c \<in> set ''0123456789'')"

text \<open>\<^verbatim>\<open>s.strip()\<close>: whitespace removed at both ends.\<close>

definition strip :: "string \<Rightarrow> string" where
  "strip s = rev (dropWhile is_space (rev (dropWhile is_space s)))"

text \<open>\<^verbatim>\<open>s.replace(' ', '')\<close>: every U+0020 removed, and no other character.\<close>

definition remove_spaces :: "string \<Rightarrow> string" where
  "remove_spaces s = filter (\<lambda>c. c \<noteq> CHR '' '') s"

text \<open>\<^verbatim>\<open>s.count(c)\<close> for a one-character \<^verbatim>\<open>c\<close>.\<close>

definition count_char :: "string \<Rightarrow> char \<Rightarrow> nat" where
  "count_char s c = length (filter (\<lambda>d. d = c) s)"

text \<open>\<^verbatim>\<open>s[0]\<close> and \<^verbatim>\<open>s[-1]\<close>: both raise IndexError on the empty string.\<close>

definition first_char :: "string \<Rightarrow> pyexn + char" where
  "first_char s = (case s of [] \<Rightarrow> Inl IndexError | c # _ \<Rightarrow> Inr c)"

definition last_char :: "string \<Rightarrow> pyexn + char" where
  "last_char s = (case rev s of [] \<Rightarrow> Inl IndexError | c # _ \<Rightarrow> Inr c)"

section \<open>Regular expressions\<close>

text \<open>
  The fragment of Python's \<^verbatim>\<open>re\<close> syntax that the source uses: character sets with the
  classes \<^verbatim>\<open>\d\<close> and \<^verbatim>\<open>\s\<close>, greedy repetition of a character set, sequence,
  alternation, capturing groups (never nested in the source), the two lookaheads, and the
  anchors \<^verbatim>\<open>^\<close> and \<^verbatim>\<open>$\<close>.
\<close>

datatype atom = Lit char | Digit | Space

fun atom_matches :: "atom \<Rightarrow> char \<Rightarrow> bool" where
  "atom_matches (Lit d) c = (c = d)"
| "atom_matches Digit c = is_digit c"
| "atom_matches Space c = is_space c"

definition in_set :: "atom list \<Rightarrow> char \<Rightarrow> bool" where
  "in_set as c = (\<exists>a \<in> set as. atom_matches a c)"

datatype regex =
    OneOf "atom list"
  | Repeat "atom list" nat "nat option"
  | Seq regex regex
  | Alt regex regex
  | Group regex
  | Ahead regex
  | NotAhead regex
  | Bos
  | Eos

text \<open>
  A matcher state is the position reached, the input that remains, and the texts of the
  groups closed so far.  \<open>rx r st\<close> lists the states in which \<open>r\<close> can end when started in
  \<open>st\<close>, in the order in which Python's backtracking matcher tries them: a greedy
  repetition offers its longest run first, an alternation its left branch first.  The
  match that Python reports is the head of the list.
\<close>

type_synonym mstate = "nat \<times> string \<times> string list"

definition run_length :: "atom list \<Rightarrow> nat option \<Rightarrow> string \<Rightarrow> nat" where
  "run_length as hi s =
     (let n = length (takeWhile (in_set as) s)
      in case hi of None \<Rightarrow> n | Some h \<Rightarrow> min h n)"

fun rx :: "regex \<Rightarrow> mstate \<Rightarrow> mstate list" where
  "rx (OneOf as) (p, s, g) =
     (case s of [] \<Rightarrow> [] | c # cs \<Rightarrow> if in_set as c then [(Suc p, cs, g)] else [])"
| "rx (Repeat as lo hi) (p, s, g) =
     map (\<lambda>k. (p + k, drop k s, g)) (rev [lo ..< Suc (run_length as hi s)])"
| "rx (Seq a b) st = concat (map (rx b) (rx a st))"
| "rx (Alt a b) st = rx a st @ rx b st"
| "rx (Group a) (p, s, g) =
     map (\<lambda>(p', s', g'). (p', s', g' @ [take (p' - p) s])) (rx a (p, s, g))"
| "rx (Ahead a) st = (if rx a st \<noteq> [] then [st] else [])"
| "rx (NotAhead a) st = (if rx a st = [] then [st] else [])"
| "rx Bos (p, s, g) = (if p = 0 then [(p, s, g)] else [])"
| "rx Eos (p, s, g) = (if s = [] \<or> s = [CHR 0x0A] then [(p, s, g)] else [])"

text \<open>\<^verbatim>\<open>re.match(r, s)\<close>: a match at position 0, as the list of its groups, or None.\<close>

definition re_match :: "regex \<Rightarrow> string \<Rightarrow> string list option" where
  "re_match r s = (case rx r (0, s, []) of [] \<Rightarrow> None | (p, s', g) # _ \<Rightarrow> Some g)"

text \<open>\<^verbatim>\<open>re.search(r, s)\<close>: the match at the leftmost position that has one.\<close>

fun search_from :: "regex \<Rightarrow> nat \<Rightarrow> string \<Rightarrow> string list option" where
  "search_from r p [] = (case rx r (p, [], []) of [] \<Rightarrow> None | (q, s', g) # _ \<Rightarrow> Some g)"
| "search_from r p (c # cs) =
     (case rx r (p, c # cs, []) of [] \<Rightarrow> search_from r (Suc p) cs | (q, s', g) # _ \<Rightarrow> Some g)"

definition re_search :: "regex \<Rightarrow> string \<Rightarrow> string list option" where
  "re_search r s = search_from r 0 s"

fun seqs :: "regex list \<Rightarrow> regex" where
  "seqs [] = Repeat [] 0 (Some 0)"
| "seqs [r] = r"
| "seqs (r # rs) = Seq r (seqs rs)"

section \<open>The validator\<close>

text \<open>\<^verbatim>\<open>r'^[\d+\-*/.()\s]+$'\<close>, used by the validator and again by the evaluator.\<close>

definition allowed_chars :: "atom list" where
  "allowed_chars = [Digit, Lit CHR ''+'', Lit CHR ''-'', Lit CHR ''*'', Lit CHR ''/'',
                    Lit CHR ''.'', Lit CHR ''('', Lit CHR '')'', Space]"

definition charset_pattern :: regex where
  "charset_pattern = seqs [Bos, Repeat allowed_chars 1 None, Eos]"

text \<open>\<^verbatim>\<open>r'[+\*/]{2,}|--+(?!\d)|-{2,}(?=\d)'\<close>\<close>

definition operator_pattern :: regex where
  "operator_pattern =
     Alt (Repeat [Lit CHR ''+'', Lit CHR ''*'', Lit CHR ''/''] 2 None)
    (Alt (seqs [OneOf [Lit CHR ''-''], Repeat [Lit CHR ''-''] 1 None, NotAhead (OneOf [Digit])])
         (seqs [Repeat [Lit CHR ''-''] 2 None, Ahead (OneOf [Digit])]))"

text \<open>\<^verbatim>\<open>r'\d*\.\d*\.\d*'\<close>\<close>

definition decimal_pattern :: regex where
  "decimal_pattern =
     seqs [Repeat [Digit] 0 None, OneOf [Lit CHR ''.''], Repeat [Digit] 0 None,
           OneOf [Lit CHR ''.''], Repeat [Digit] 0 None]"

text \<open>
  \<^verbatim>\<open>_has_invalid_syntax\<close>.  The two indexings are the only places where the validator can
  raise; \<^verbatim>\<open>or\<close> evaluates its right operand only when the left one is false.
\<close>

definition has_invalid_syntax :: "string \<Rightarrow> pyexn + bool" where
  "has_invalid_syntax expression0 =
     (let expression = remove_spaces expression0 in
      if re_search operator_pattern expression \<noteq> None then Inr True
      else (case first_char expression of
        Inl e \<Rightarrow> Inl e
      | Inr c0 \<Rightarrow>
          if c0 \<in> set ''+*/'' then Inr True
          else (case last_char expression of
            Inl e \<Rightarrow> Inl e
          | Inr c1 \<Rightarrow>
              if c1 \<in> set ''+*/-'' then Inr True
              else if re_search decimal_pattern expression \<noteq> None then Inr True
              else if count_char expression CHR ''('' \<noteq> count_char expression CHR '')''
                then Inr True
              else Inr False)))"

text \<open>\<^verbatim>\<open>validate_expression\<close>\<close>

definition validate_expression :: "pyobj \<Rightarrow> pyexn + bool" where
  "validate_expression v =
     (if \<not> truthy v \<or> \<not> isinstance_str v then Inr False
      else (case v of
        PStr expression0 \<Rightarrow>
          (let expression = strip expression0 in
           if re_match charset_pattern expression = None then Inr False
           else (case has_invalid_syntax expression of
             Inl e \<Rightarrow> Inl e
           | Inr True \<Rightarrow> Inr False
           | Inr False \<Rightarrow> Inr True))
      | _ \<Rightarrow> Inr False))"

section \<open>Floating-point numbers\<close>

text \<open>
  A Python \<^verbatim>\<open>float\<close> is an IEEE 754 binary64 number.  A finite one is modelled by
  the rational number it stands for (\<open>Finite 0\<close> is \<open>+0.0\<close>), and every operation
  rounds the exact result to the nearest binary64 number, ties to the even significand.
\<close>

datatype pyfloat = Finite rat | NegZero | Infinity bool | NaN

text \<open>\<^verbatim>\<open>n.bit_length()\<close> for a non-negative \<^verbatim>\<open>n\<close>.\<close>

function bit_length :: "int \<Rightarrow> nat" where
  "bit_length n = (if n \<le> 0 then 0 else Suc (bit_length (n div 2)))"
  by pat_completeness auto
termination
  by (relation "measure nat") auto

declare bit_length.simps [simp del]

definition pow2 :: "int \<Rightarrow> rat" where
  "pow2 k = (if 0 \<le> k then 2 ^ nat k else 1 / 2 ^ nat (- k))"

text \<open>The exponent \<open>e\<close> with \<open>2\<^sup>e \<le> x < 2\<^sup>e\<^sup>+\<^sup>1\<close>, for a positive \<open>x\<close>.\<close>

definition floor_log2 :: "rat \<Rightarrow> int" where
  "floor_log2 x =
     (case quotient_of x of (p, q) \<Rightarrow>
        let k = int (bit_length p) - int (bit_length q)
        in if pow2 k \<le> x then k else k - 1)"

definition round_half_even :: "rat \<Rightarrow> int" where
  "round_half_even x =
     (let f = \<lfloor>x\<rfloor>; d = x - of_int f
      in if d < 1 / 2 then f
         else if 1 / 2 < d then f + 1
         else if even f then f else f + 1)"

text \<open>
  Rounding to binary64: 53 significant bits, the least exponent -1022 (below it the
  numbers are subnormal, spaced \<open>2\<^sup>-\<^sup>1\<^sup>0\<^sup>7\<^sup>4\<close> apart).  The result is infinite when
  the rounded magnitude reaches \<open>2\<^sup>1\<^sup>0\<^sup>2\<^sup>4\<close>: the exponent is above 1023, or it is 1023
  and the significand rounds up to \<open>2\<^sup>5\<^sup>3\<close>.  The flag gives the sign of the result
  when the exact value is zero.
\<close>

definition to_double :: "bool \<Rightarrow> rat \<Rightarrow> pyfloat" where
  "to_double neg x =
     (if x = 0 then (if neg then NegZero else Finite 0)
      else
        let a = \<bar>x\<bar>;
            e = max (floor_log2 a) (- 1022);
            ulp = pow2 (e - 52);
            m = round_half_even (a / ulp);
            y = of_int m * ulp
        in if 1023 < e \<or> (e = 1023 \<and> m = 2 ^ 53) then Infinity (x < 0)
           else if m = 0 then (if x < 0 then NegZero else Finite 0)
           else Finite (if x < 0 then - y else y))"

fun is_negative :: "pyfloat \<Rightarrow> bool" where
  "is_negative (Finite r) = (r < 0)"
| "is_negative NegZero = True"
| "is_negative (Infinity neg) = neg"
| "is_negative NaN = False"

fun float_is_zero :: "pyfloat \<Rightarrow> bool" where
  "float_is_zero (Finite r) = (r = 0)"
| "float_is_zero NegZero = True"
| "float_is_zero _ = False"

fun float_value :: "pyfloat \<Rightarrow> rat" where
  "float_value (Finite r) = r"
| "float_value _ = 0"

fun is_finite :: "pyfloat \<Rightarrow> bool" where
  "is_finite (Finite r) = True"
| "is_finite NegZero = True"
| "is_finite _ = False"

fun fneg :: "pyfloat \<Rightarrow> pyfloat" where
  "fneg (Finite r) = (if r = 0 then NegZero else Finite (- r))"
| "fneg NegZero = Finite 0"
| "fneg (Infinity neg) = Infinity (\<not> neg)"
| "fneg NaN = NaN"

definition fadd :: "pyfloat \<Rightarrow> pyfloat \<Rightarrow> pyfloat" where
  "fadd x y =
     (if x = NaN \<or> y = NaN then NaN
      else if \<not> is_finite x \<and> \<not> is_finite y
        then (if is_negative x = is_negative y then x else NaN)
      else if \<not> is_finite x then x
      else if \<not> is_finite y then y
      else to_double (is_negative x \<and> is_negative y) (float_value x + float_value y))"

definition fsub :: "pyfloat \<Rightarrow> pyfloat \<Rightarrow> pyfloat" where
  "fsub x y = fadd x (fneg y)"

definition fmul :: "pyfloat \<Rightarrow> pyfloat \<Rightarrow> pyfloat" where
  "fmul x y =
     (let neg = (is_negative x \<noteq> is_negative y) in
      if x = NaN \<or> y = NaN then NaN
      else if \<not> is_finite x \<or> \<not> is_finite y
        then (if float_is_zero x \<or> float_is_zero y then NaN else Infinity neg)
      else to_double neg (float_value x * float_value y))"

text \<open>Division of \<open>x\<close> by a \<open>y\<close> that is not zero.\<close>

definition fdiv :: "pyfloat \<Rightarrow> pyfloat \<Rightarrow> pyfloat" where
  "fdiv x y =
     (let neg = (is_negative x \<noteq> is_negative y) in
      if x = NaN \<or> y = NaN then NaN
      else if \<not> is_finite x then (if is_finite y then Infinity neg else NaN)
      else if \<not> is_finite y then to_double neg 0
      else to_double neg (float_value x / float_value y))"

section \<open>Results\<close>

text \<open>
  The values that the evaluator can return, and the outcome of a computation.  The
  third outcome marks the inputs on which the model of a Python builtin does not say
  what CPython does (a power with a float operand, for one); no theorem below reads
  it as a result or as an error.
\<close>

datatype pyval = VInt int | VFloat pyfloat | VTuple | VEllipsis

datatype 'a outcome = Returns 'a | Raises pyexn | Unmodelled

definition bind :: "'a outcome \<Rightarrow> ('a \<Rightarrow> 'b outcome) \<Rightarrow> 'b outcome" where
  "bind m f = (case m of Returns x \<Rightarrow> f x | Raises e \<Rightarrow> Raises e | Unmodelled \<Rightarrow> Unmodelled)"

text \<open>\<^verbatim>\<open>x.is_integer()\<close>, \<^verbatim>\<open>int(x)\<close> and \<^verbatim>\<open>round(x, 10)\<close> on a float \<^verbatim>\<open>x\<close>.\<close>

fun is_integer :: "pyfloat \<Rightarrow> bool" where
  "is_integer (Finite r) = (of_int \<lfloor>r\<rfloor> = r)"
| "is_integer NegZero = True"
| "is_integer _ = False"

fun float_to_int :: "pyfloat \<Rightarrow> int outcome" where
  "float_to_int (Finite r) = Returns (if r < 0 then - \<lfloor>- r\<rfloor> else \<lfloor>r\<rfloor>)"
| "float_to_int NegZero = Returns 0"
| "float_to_int (Infinity neg) = Raises OverflowError"
| "float_to_int NaN = Raises (ValueError ''cannot convert float NaN to integer'')"

text \<open>
  \<^verbatim>\<open>round(x, 10)\<close> rounds the exact value of \<^verbatim>\<open>x\<close> to ten decimal places, ties to
  the even digit, and returns the binary64 number nearest to that decimal.
\<close>

fun round10 :: "pyfloat \<Rightarrow> pyfloat outcome" where
  "round10 (Finite r) =
     (case to_double (r < 0) (of_int (round_half_even (r * 10 ^ 10)) / 10 ^ 10) of
        Infinity neg \<Rightarrow> Raises OverflowError
      | y \<Rightarrow> Returns y)"
| "round10 x = Returns x"

section \<open>Decimal literals\<close>

definition digit_of :: "char \<Rightarrow> int" where
  "digit_of c = of_char c - 48"

definition digits_value :: "string \<Rightarrow> int" where
  "digits_value ds = foldl (\<lambda>acc c. 10 * acc + digit_of c) 0 ds"

text \<open>
  The value of a decimal literal without sign or exponent: digits, an optional point,
  digits, with at least one digit.  None for any other string.
\<close>

definition literal_value :: "string \<Rightarrow> rat option" where
  "literal_value s =
     (let ip = takeWhile is_digit s; r = dropWhile is_digit s in
      case r of
        [] \<Rightarrow> if ip = [] then None else Some (of_int (digits_value ip))
      | c # fp \<Rightarrow>
          if c = CHR ''.'' \<and> list_all is_digit fp \<and> (ip \<noteq> [] \<or> fp \<noteq> [])
          then Some (of_int (digits_value (ip @ fp)) / 10 ^ length fp)
          else None)"

text \<open>
  \<^verbatim>\<open>float(s)\<close> on such a literal: the nearest binary64 number, infinity when the
  literal is too large.  What \<^verbatim>\<open>float\<close> does on other strings is not modelled.
\<close>

definition py_float :: "string \<Rightarrow> pyfloat outcome" where
  "py_float s = (case literal_value s of None \<Rightarrow> Unmodelled | Some x \<Rightarrow> Returns (to_double False x))"

section \<open>The builtin \<^verbatim>\<open>eval\<close>\<close>

text \<open>
  \<^verbatim>\<open>_safe_eval\<close> hands the expression to Python's \<^verbatim>\<open>eval\<close> with empty globals and
  locals.  The model follows CPython on the strings that pass the character check:
  tokens, the expression grammar over these tokens, and evaluation from left to right.
  Line breaks, integer literals of more than 4300 digits, powers with a float operand
  or a negative exponent, float floor division, very large integer powers and parses
  nested deeper than \<open>parse_depth\<close> are left \<open>Unmodelled\<close>.
\<close>

datatype token =
    TNumber pyval
  | TPlus | TMinus | TStar | TSlash | TDoubleSlash | TDoubleStar
  | TLpar | TRpar | TDot | TEllipsis
  | TInvalid
  | TUnmodelled

text \<open>
  A number token: digits with an optional point and fraction make a float; digits alone
  make an integer, which must not start with a zero unless it is all zeros.
\<close>

definition number_token :: "string \<Rightarrow> token" where
  "number_token s =
     (let ip = takeWhile is_digit s; r = dropWhile is_digit s in
      if take 1 r = ''.'' then
        (let fp = takeWhile is_digit (drop 1 r)
         in TNumber (VFloat (to_double False
              (of_int (digits_value (ip @ fp)) / 10 ^ length fp))))
      else if 4300 < length ip then TUnmodelled
      else if 1 < length ip \<and> take 1 ip = ''0'' \<and> \<not> list_all (\<lambda>c. c = CHR ''0'') ip
        then TInvalid
      else TNumber (VInt (digits_value ip)))"

definition number_rest :: "string \<Rightarrow> string" where
  "number_rest s =
     (let r = dropWhile is_digit s in
      if take 1 r = ''.'' then dropWhile is_digit (drop 1 r) else r)"

definition starts_number :: "string \<Rightarrow> bool" where
  "starts_number s =
     (case s of
        [] \<Rightarrow> False
      | c # cs \<Rightarrow> is_digit c \<or> (c = CHR ''.'' \<and> (case cs of [] \<Rightarrow> False | d # _ \<Rightarrow> is_digit d)))"

text \<open>
  The tokenizer skips space, tab and form feed; the other whitespace characters that
  the character check lets through are invalid in Python source.
\<close>

function tokenise :: "string \<Rightarrow> token list" where
  "tokenise [] = []"
| "tokenise (c # cs) =
     (if c = CHR '' '' \<or> c = CHR 0x09 \<or> c = CHR 0x0C then tokenise cs
      else if c = CHR 0x0A \<or> c = CHR 0x0D then [TUnmodelled]
      else if starts_number (c # cs)
        then number_token (c # cs) # tokenise (number_rest (c # cs))
      else if c = CHR ''.'' then
        (if take 2 cs = ''..'' then TEllipsis # tokenise (drop 2 cs) else TDot # tokenise cs)
      else if c = CHR ''+'' then TPlus # tokenise cs
      else if c = CHR ''-'' then TMinus # tokenise cs
      else if c = CHR ''*'' then
        (if take 1 cs = ''*'' then TDoubleStar # tokenise (drop 1 cs) else TStar # tokenise cs)
      else if c = CHR ''/'' then
        (if take 1 cs = ''/'' then TDoubleSlash # tokenise (drop 1 cs) else TSlash # tokenise cs)
      else if c = CHR ''('' then TLpar # tokenise cs
      else if c = CHR '')'' then TRpar # tokenise cs
      else if is_space c then [TInvalid]
      else [TUnmodelled])"
  by pat_completeness auto
termination
proof -
  have le: "length (dropWhile is_digit xs) \<le> length xs" for xs
    by (rule length_dropWhile_le)
  have le1: "length (dropWhile is_digit (drop 1 xs)) \<le> length xs" for xs
    using le [of "drop 1 xs"] by simp
  have shorter: "length (number_rest (c # cs)) \<le> length cs" if "starts_number (c # cs)" for c cs
  proof (cases "is_digit c")
    case True
    have "length (number_rest (c # cs)) \<le> length (dropWhile is_digit cs)"
      using True le1 [of "dropWhile is_digit cs"] by (simp add: number_rest_def Let_def)
    then show ?thesis using le [of cs] by simp
  next
    case False
    with that have "c = CHR ''.''" by (auto simp: starts_number_def)
    with False show ?thesis by (simp add: number_rest_def Let_def le)
  qed
  show ?thesis
    by (relation "measure length") (auto simp: shorter less_Suc_eq_le)
qed

subsection \<open>Syntax\<close>

datatype binop = Add | Sub | Mult | Div | FloorDiv | Pow

datatype expr =
    Constant pyval
  | UAdd expr
  | USub expr
  | BinOp expr binop expr
  | Call expr
  | CallArg expr expr

text \<open>
  Without commas a call has no argument or one; the argument may be starred or
  double-starred.  Every callee here is a number, a tuple or Ellipsis, so the kind of
  the argument does not change what the call does and the syntax tree keeps the
  argument expression alone.
\<close>

definition parse_depth :: nat where
  "parse_depth = 100"

text \<open>
  A recursive descent over the token list, one case per rule of the grammar:
  \<^verbatim>\<open>sum: term (('+'|'-') term)*\<close>, \<^verbatim>\<open>term: factor (('*'|'/'|'//') factor)*\<close>,
  \<^verbatim>\<open>factor: ('+'|'-') factor | power\<close>, \<^verbatim>\<open>power: primary ['**' factor]\<close>,
  \<^verbatim>\<open>primary: atom trailer*\<close>, \<^verbatim>\<open>atom: NUMBER | '...' | '(' [sum] ')'\<close>.
  The rules \<open>SumRest\<close>, \<open>TermRest\<close> and \<open>Trailers\<close> continue from the operand parsed so
  far, which the other rules ignore.  The first argument bounds the depth of the descent.
\<close>

datatype rule = Sum | SumRest | Term | TermRest | Factor | Power | Trailers | Atom

primrec descend :: "nat \<Rightarrow> rule \<Rightarrow> expr \<Rightarrow> token list \<Rightarrow> (expr \<times> token list) outcome" where
  "descend 0 rl l ts = Unmodelled"
| "descend (Suc n) rl l ts =
     (case rl of
        Sum \<Rightarrow> bind (descend n Term l ts) (\<lambda>(e, r). descend n SumRest e r)
      | SumRest \<Rightarrow>
          (case ts of
             TPlus # r \<Rightarrow>
               bind (descend n Term l r) (\<lambda>(e, r'). descend n SumRest (BinOp l Add e) r')
           | TMinus # r \<Rightarrow>
               bind (descend n Term l r) (\<lambda>(e, r'). descend n SumRest (BinOp l Sub e) r')
           | _ \<Rightarrow> Returns (l, ts))
      | Term \<Rightarrow> bind (descend n Factor l ts) (\<lambda>(e, r). descend n TermRest e r)
      | TermRest \<Rightarrow>
          (case ts of
             TStar # r \<Rightarrow>
               bind (descend n Factor l r) (\<lambda>(e, r'). descend n TermRest (BinOp l Mult e) r')
           | TSlash # r \<Rightarrow>
               bind (descend n Factor l r) (\<lambda>(e, r'). descend n TermRest (BinOp l Div e) r')
           | TDoubleSlash # r \<Rightarrow>
               bind (descend n Factor l r)
                 (\<lambda>(e, r'). descend n TermRest (BinOp l FloorDiv e) r')
           | _ \<Rightarrow> Returns (l, ts))
      | Factor \<Rightarrow>
          (case ts of
             TPlus # r \<Rightarrow> bind (descend n Factor l r) (\<lambda>(e, r'). Returns (UAdd e, r'))
           | TMinus # r \<Rightarrow> bind (descend n Factor l r) (\<lambda>(e, r'). Returns (USub e, r'))
           | _ \<Rightarrow> descend n Power l ts)
      | Power \<Rightarrow>
          bind (descend n Atom l ts) (\<lambda>(a, r).
          bind (descend n Trailers a r) (\<lambda>(b, r').
            (case r' of
               TDoubleStar # r'' \<Rightarrow>
                 bind (descend n Factor l r'') (\<lambda>(e, r3). Returns (BinOp b Pow e, r3))
             | _ \<Rightarrow> Returns (b, r'))))
      | Trailers \<Rightarrow>
          (case ts of
             TLpar # r \<Rightarrow>
               (case r of
                  TRpar # r' \<Rightarrow> descend n Trailers (Call l) r'
                | _ \<Rightarrow>
                    bind (descend n Sum l
                            (case r of TStar # r' \<Rightarrow> r' | TDoubleStar # r' \<Rightarrow> r' | _ \<Rightarrow> r))
                      (\<lambda>(a, r').
                         (case r' of
                            TRpar # r'' \<Rightarrow> descend n Trailers (CallArg l a) r''
                          | _ \<Rightarrow> Raises SyntaxError)))
           | TDot # r \<Rightarrow> Raises SyntaxError
           | _ \<Rightarrow> Returns (l, ts))
      | Atom \<Rightarrow>
          (case ts of
             TNumber v # r \<Rightarrow> Returns (Constant v, r)
           | TEllipsis # r \<Rightarrow> Returns (Constant VEllipsis, r)
           | TLpar # r \<Rightarrow>
               (case r of
                  TRpar # r' \<Rightarrow> Returns (Constant VTuple, r')
                | _ \<Rightarrow>
                    bind (descend n Sum l r) (\<lambda>(e, r').
                      (case r' of TRpar # r'' \<Rightarrow> Returns (e, r'') | _ \<Rightarrow> Raises SyntaxError)))
           | _ \<Rightarrow> Raises SyntaxError))"

text \<open>The whole token list must be one expression.\<close>

definition parse :: "token list \<Rightarrow> expr outcome" where
  "parse ts =
     (if TUnmodelled \<in> set ts then Unmodelled
      else if TInvalid \<in> set ts then Raises SyntaxError
      else bind (descend parse_depth Sum (Constant VTuple) ts) (\<lambda>(e, r).
             if r = [] then Returns e else Raises SyntaxError))"

subsection \<open>Evaluation\<close>

text \<open>An \<^verbatim>\<open>int\<close> that meets a \<^verbatim>\<open>float\<close> is converted first; too large a one raises.\<close>

definition int_to_float :: "int \<Rightarrow> pyfloat outcome" where
  "int_to_float i =
     (case to_double False (of_int i) of
        Infinity neg \<Rightarrow> Raises OverflowError
      | x \<Rightarrow> Returns x)"

fun as_float :: "pyval \<Rightarrow> pyfloat outcome" where
  "as_float (VInt i) = int_to_float i"
| "as_float (VFloat x) = Returns x"
| "as_float _ = Raises TypeError"

fun int_binop :: "binop \<Rightarrow> int \<Rightarrow> int \<Rightarrow> pyval outcome" where
  "int_binop Add x y = Returns (VInt (x + y))"
| "int_binop Sub x y = Returns (VInt (x - y))"
| "int_binop Mult x y = Returns (VInt (x * y))"
| "int_binop Div x y =
     (if y = 0 then Raises (ZeroDivisionError ''division by zero'')
      else (case to_double ((x < 0) \<noteq> (y < 0)) (of_int x / of_int y) of
              Infinity neg \<Rightarrow> Raises OverflowError
            | q \<Rightarrow> Returns (VFloat q)))"
| "int_binop FloorDiv x y =
     (if y = 0 then Raises (ZeroDivisionError ''integer division or modulo by zero'')
      else Returns (VInt (x div y)))"
| "int_binop Pow x y =
     (if y < 0 then
        (if x = 0 then Raises (ZeroDivisionError ''0.0 cannot be raised to a negative power'')
         else Unmodelled)
      else if int (bit_length \<bar>x\<bar>) * y \<le> 4096 then Returns (VInt (x ^ nat y))
      else Unmodelled)"

fun float_binop :: "binop \<Rightarrow> pyfloat \<Rightarrow> pyfloat \<Rightarrow> pyval outcome" where
  "float_binop Add x y = Returns (VFloat (fadd x y))"
| "float_binop Sub x y = Returns (VFloat (fsub x y))"
| "float_binop Mult x y = Returns (VFloat (fmul x y))"
| "float_binop Div x y =
     (if float_is_zero y then Raises (ZeroDivisionError ''float division by zero'')
      else Returns (VFloat (fdiv x y)))"
| "float_binop FloorDiv x y =
     (if float_is_zero y then Raises (ZeroDivisionError ''float floor division by zero'')
      else Unmodelled)"
| "float_binop Pow x y = Unmodelled"

text \<open>
  The empty tuple is the only sequence there is: it can be added to itself and repeated
  by an integer that fits the index type of a 64-bit build.
\<close>

fun binary_op :: "binop \<Rightarrow> pyval \<Rightarrow> pyval \<Rightarrow> pyval outcome" where
  "binary_op op (VInt x) (VInt y) = int_binop op x y"
| "binary_op op (VInt x) (VFloat y) = bind (int_to_float x) (\<lambda>x'. float_binop op x' y)"
| "binary_op op (VFloat x) (VInt y) = bind (int_to_float y) (\<lambda>y'. float_binop op x y')"
| "binary_op op (VFloat x) (VFloat y) = float_binop op x y"
| "binary_op op VTuple VTuple = (if op = Add then Returns VTuple else Raises TypeError)"
| "binary_op op VTuple (VInt n) =
     (if op \<noteq> Mult then Raises TypeError
      else if - (2 ^ 63) \<le> n \<and> n < 2 ^ 63 then Returns VTuple else Raises OverflowError)"
| "binary_op op (VInt n) VTuple =
     (if op \<noteq> Mult then Raises TypeError
      else if - (2 ^ 63) \<le> n \<and> n < 2 ^ 63 then Returns VTuple else Raises OverflowError)"
| "binary_op op _ _ = Raises TypeError"

fun unary_plus :: "pyval \<Rightarrow> pyval outcome" where
  "unary_plus (VInt x) = Returns (VInt x)"
| "unary_plus (VFloat x) = Returns (VFloat x)"
| "unary_plus _ = Raises TypeError"

fun unary_minus :: "pyval \<Rightarrow> pyval outcome" where
  "unary_minus (VInt x) = Returns (VInt (- x))"
| "unary_minus (VFloat x) = Returns (VFloat (fneg x))"
| "unary_minus _ = Raises TypeError"

text \<open>
  Operands are evaluated from left to right and the first exception ends the
  evaluation.  A call evaluates the callee and the argument and then fails: nothing
  that these expressions denote can be called.
\<close>

fun eval_expr :: "expr \<Rightarrow> pyval outcome" where
  "eval_expr (Constant v) = Returns v"
| "eval_expr (UAdd e) = bind (eval_expr e) unary_plus"
| "eval_expr (USub e) = bind (eval_expr e) unary_minus"
| "eval_expr (BinOp l op r) =
     bind (eval_expr l) (\<lambda>a. bind (eval_expr r) (\<lambda>b. binary_op op a b))"
| "eval_expr (Call f) = bind (eval_expr f) (\<lambda>c. Raises TypeError)"
| "eval_expr (CallArg f a) =
     bind (eval_expr f) (\<lambda>c. bind (eval_expr a) (\<lambda>b. Raises TypeError))"

definition py_eval :: "string \<Rightarrow> pyval outcome" where
  "py_eval s = bind (parse (tokenise s)) eval_expr"

section \<open>The evaluator\<close>

text \<open>\<^verbatim>\<open>r'^(\d*\.?\d+)\s*([+\-*/])\s*(\d*\.?\d+)$'\<close>\<close>

definition number_pattern :: regex where
  "number_pattern =
     seqs [Repeat [Digit] 0 None, Repeat [Lit CHR ''.''] 0 (Some 1), Repeat [Digit] 1 None]"

definition fast_pattern :: regex where
  "fast_pattern =
     seqs [Bos, Group number_pattern, Repeat [Space] 0 None,
           Group (OneOf [Lit CHR ''+'', Lit CHR ''-'', Lit CHR ''*'', Lit CHR ''/'']),
           Repeat [Space] 0 None, Group number_pattern, Eos]"

text \<open>
  \<^verbatim>\<open>self.operators\<close>: the functions of the \<^verbatim>\<open>operator\<close> module, here on floats.
  \<^verbatim>\<open>operator.truediv\<close> raises on a zero divisor by itself.
\<close>

definition truediv :: "pyfloat \<Rightarrow> pyfloat \<Rightarrow> pyfloat outcome" where
  "truediv x y =
     (if float_is_zero y then Raises (ZeroDivisionError ''float division by zero'')
      else Returns (fdiv x y))"

definition operators :: "string \<Rightarrow> (pyfloat \<Rightarrow> pyfloat \<Rightarrow> pyfloat outcome) option" where
  "operators =
     map_of [(''+'', \<lambda>x y. Returns (fadd x y)),
             (''-'', \<lambda>x y. Returns (fsub x y)),
             (''*'', \<lambda>x y. Returns (fmul x y)),
             (''/'', truediv)]"

text \<open>
  \<^verbatim>\<open>Calculator._safe_eval\<close>.  The bare \<^verbatim>\<open>except:\<close> turns every exception of
  \<^verbatim>\<open>eval\<close> into the same ValueError.
\<close>

definition safe_eval :: "string \<Rightarrow> pyval outcome" where
  "safe_eval expression =
     (if re_match charset_pattern expression = None
        then Raises (ValueError ''Expression contains invalid characters'')
      else (case py_eval expression of
              Returns v \<Rightarrow> Returns v
            | Raises e \<Rightarrow> Raises (ValueError ''Invalid expression format'')
            | Unmodelled \<Rightarrow> Unmodelled))"

text \<open>\<^verbatim>\<open>Calculator.evaluate\<close>\<close>

definition evaluate :: "string \<Rightarrow> pyval outcome" where
  "evaluate expression0 =
     (let expression = remove_spaces expression0 in
      if expression = [] then Raises (ValueError ''Empty expression'')
      else (case re_match fast_pattern expression of
        Some groups \<Rightarrow>
          (case groups of
             [group1, operator_symbol, group3] \<Rightarrow>
               bind (py_float group1) (\<lambda>left_operand.
               bind (py_float group3) (\<lambda>right_operand.
                 (case operators operator_symbol of
                    None \<Rightarrow> Raises (ValueError (''Unsupported operator: '' @ operator_symbol))
                  | Some f \<Rightarrow>
                      if operator_symbol = ''/'' \<and> float_is_zero right_operand
                        then Raises (ZeroDivisionError ''Division by zero'')
                      else bind (f left_operand right_operand) (\<lambda>result.
                        if is_integer result
                          then bind (float_to_int result) (\<lambda>i. Returns (VInt i))
                        else bind (round10 result) (\<lambda>r. Returns (VFloat r))))))
           | _ \<Rightarrow> Unmodelled)
      | None \<Rightarrow> safe_eval expression))"

section \<open>Properties of the regular expressions and of the validator\<close>

lemma rx_OneOf_mem:
  "st \<in> set (rx (OneOf as) (p, s, g)) \<longleftrightarrow>
     (\<exists>c cs. s = c # cs \<and> in_set as c \<and> st = (Suc p, cs, g))"
  by (cases s) auto

lemma rx_Repeat_mem:
  "st \<in> set (rx (Repeat as lo hi) (p, s, g)) \<longleftrightarrow>
     (\<exists>k. lo \<le> k \<and> k \<le> run_length as hi s \<and> st = (p + k, drop k s, g))"
  by (auto simp: image_iff)

lemma rx_Seq_mem:
  "st \<in> set (rx (Seq a b) st0) \<longleftrightarrow> (\<exists>st1 \<in> set (rx a st0). st \<in> set (rx b st1))"
  by auto

lemma rx_SeqI:
  "st1 \<in> set (rx a st0) \<Longrightarrow> st \<in> set (rx b st1) \<Longrightarrow> st \<in> set (rx (Seq a b) st0)"
  unfolding rx_Seq_mem by (rule bexI)

lemma rx_RepeatI:
  "lo \<le> k \<Longrightarrow> k \<le> run_length as hi s \<Longrightarrow>
     (p + k, drop k s, g) \<in> set (rx (Repeat as lo hi) (p, s, g))"
  unfolding rx_Repeat_mem by (intro exI [of _ k] conjI refl)

lemma rx_Alt_mem:
  "st \<in> set (rx (Alt a b) st0) \<longleftrightarrow> st \<in> set (rx a st0) \<or> st \<in> set (rx b st0)"
  by auto

lemma rx_Group_mem:
  "st \<in> set (rx (Group a) (p, s, g)) \<longleftrightarrow>
     (\<exists>p' s' g'. (p', s', g') \<in> set (rx a (p, s, g)) \<and> st = (p', s', g' @ [take (p' - p) s]))"
  by (auto simp: image_iff) force

lemma rx_Bos_mem: "st \<in> set (rx Bos (p, s, g)) \<longleftrightarrow> p = 0 \<and> st = (p, s, g)"
  by auto

lemma rx_Eos_mem:
  "st \<in> set (rx Eos (p, s, g)) \<longleftrightarrow> (s = [] \<or> s = [CHR 0x0A]) \<and> st = (p, s, g)"
  by auto

lemma rx_Ahead_mem:
  "st \<in> set (rx (Ahead a) st0) \<longleftrightarrow> rx a st0 \<noteq> [] \<and> st = st0"
  by auto

lemma rx_NotAhead_mem:
  "st \<in> set (rx (NotAhead a) st0) \<longleftrightarrow> rx a st0 = [] \<and> st = st0"
  by auto

lemmas rx_mem =
  rx_OneOf_mem rx_Repeat_mem rx_Seq_mem rx_Alt_mem rx_Group_mem rx_Bos_mem rx_Eos_mem
  rx_Ahead_mem rx_NotAhead_mem

declare rx.simps [simp del]

lemma rx_nonempty_iff: "rx r st \<noteq> [] \<longleftrightarrow> (\<exists>x. x \<in> set (rx r st))"
  by (cases "rx r st") auto

lemma re_match_None_iff: "re_match r s = None \<longleftrightarrow> rx r (0, s, []) = []"
  by (auto simp: re_match_def split: list.splits)

lemma run_length_le: "run_length as hi s \<le> length s"
  by (auto simp: run_length_def Let_def length_takeWhile_le min.coboundedI2 split: option.splits)

lemma take_run_prefix:
  assumes "k \<le> length (takeWhile P s)"
  shows "take k s = take k (takeWhile P s)"
proof -
  have "take k s = take k (takeWhile P s @ dropWhile P s)" by simp
  also have "\<dots> = take k (takeWhile P s)"
    using assms by (simp del: takeWhile_dropWhile_id)
  finally show ?thesis .
qed

lemma run_length_prefix:
  assumes "k \<le> run_length as hi s" and "c \<in> set (take k s)"
  shows "in_set as c"
proof -
  have "k \<le> length (takeWhile (in_set as) s)"
    using assms(1) by (auto simp: run_length_def Let_def split: option.splits)
  then have "take k s = take k (takeWhile (in_set as) s)" by (rule take_run_prefix)
  with assms(2) have "c \<in> set (takeWhile (in_set as) s)" by (metis in_set_takeD)
  then show ?thesis by (rule set_takeWhileD [THEN conjunct2])
qed

lemma run_length_None_all:
  "\<forall>c \<in> set s. in_set as c \<Longrightarrow> run_length as None s = length s"
  by (simp add: run_length_def takeWhile_eq_all_conv[THEN iffD2])

lemma newline_allowed: "in_set allowed_chars (CHR 0x0A)"
  by (simp add: in_set_def allowed_chars_def is_space_def)

lemma space_allowed: "is_space c \<Longrightarrow> in_set allowed_chars c"
  by (simp add: in_set_def allowed_chars_def)

text \<open>The character check succeeds exactly on the non-empty strings of allowed characters.\<close>

lemma charset_match_iff:
  "re_match charset_pattern s \<noteq> None \<longleftrightarrow> s \<noteq> [] \<and> (\<forall>c \<in> set s. in_set allowed_chars c)"
proof
  assume "re_match charset_pattern s \<noteq> None"
  then obtain st where "st \<in> set (rx charset_pattern (0, s, []))"
    by (auto simp: re_match_None_iff rx_nonempty_iff)
  then obtain st1 st2 where st1: "st1 \<in> set (rx Bos (0, s, []))"
      and st2: "st2 \<in> set (rx (Repeat allowed_chars 1 None) st1)"
      and st: "st \<in> set (rx Eos st2)"
    unfolding charset_pattern_def seqs.simps rx_Seq_mem by blast
  from st1 have s1: "st1 = (0, s, [])" by (simp add: rx_Bos_mem)
  from st2 have "st2 \<in> set (rx (Repeat allowed_chars 1 None) (0, s, []))"
    unfolding s1 .
  then obtain k where k: "1 \<le> k" "k \<le> run_length allowed_chars None s"
      and st2': "st2 = (0 + k, drop k s, [])"
    unfolding rx_Repeat_mem by (elim exE conjE)
  from st have "st \<in> set (rx Eos (0 + k, drop k s, []))"
    unfolding st2' .
  then have e: "drop k s = [] \<or> drop k s = [CHR 0x0A]"
    unfolding rx_Eos_mem by (elim conjE)
  have pre: "\<forall>c \<in> set (take k s). in_set allowed_chars c"
    using k(2) run_length_prefix by blast
  have "k \<le> length s" using k(2) run_length_le [of allowed_chars None s] by simp
  with k(1) have ne: "s \<noteq> []" by auto
  have "c \<in> set (take k s) \<or> c \<in> set (drop k s)" if "c \<in> set s" for c
    using that by (metis Un_iff append_take_drop_id set_append)
  with pre e newline_allowed have "\<forall>c \<in> set s. in_set allowed_chars c" by fastforce
  with ne show "s \<noteq> [] \<and> (\<forall>c \<in> set s. in_set allowed_chars c)" by simp
next
  assume a: "s \<noteq> [] \<and> (\<forall>c \<in> set s. in_set allowed_chars c)"
  then have rl: "run_length allowed_chars None s = length s" by (simp add: run_length_None_all)
  have len: "1 \<le> length s" using a by (cases s) auto
  have 1: "(0, s, []) \<in> set (rx Bos (0, s, []))" by (simp add: rx_Bos_mem)
  have 2: "(0 + length s, drop (length s) s, []) \<in> set (rx (Repeat allowed_chars 1 None) (0, s, []))"
    by (rule rx_RepeatI) (use rl len in simp_all)
  have 3: "(0 + length s, drop (length s) s, []) \<in> set (rx Eos (0 + length s, drop (length s) s, []))"
    by (simp add: rx_Eos_mem)
  have "(0 + length s, drop (length s) s, []) \<in> set (rx charset_pattern (0, s, []))"
    unfolding charset_pattern_def seqs.simps by (rule rx_SeqI [OF 1]) (rule rx_SeqI [OF 2 3])
  then show "re_match charset_pattern s \<noteq> None"
    by (auto simp: re_match_None_iff)
qed

lemma strip_subset: "set (strip s) \<subseteq> set s"
  by (auto simp: strip_def dest!: set_dropWhileD)

lemma strip_rest_space:
  assumes "c \<in> set s" and "c \<notin> set (strip s)"
  shows "is_space c"
proof -
  let ?d = "dropWhile is_space s"
  have s: "set s = set (takeWhile is_space s) \<union> set ?d"
    by (metis set_append takeWhile_dropWhile_id)
  have d: "set (rev ?d) = set (takeWhile is_space (rev ?d)) \<union> set (dropWhile is_space (rev ?d))"
    by (metis set_append takeWhile_dropWhile_id)
  have "c \<notin> set (dropWhile is_space (rev ?d))" using assms(2) by (simp add: strip_def)
  with s d assms(1) have "c \<in> set (takeWhile is_space s) \<or> c \<in> set (takeWhile is_space (rev ?d))"
    by auto
  then show ?thesis by (auto dest: set_takeWhileD)
qed

lemma strip_nonempty_has_nonspace:
  assumes "strip s \<noteq> []"
  shows "\<exists>c \<in> set (strip s). \<not> is_space c"
proof -
  let ?r = "dropWhile is_space (rev (dropWhile is_space s))"
  have "?r \<noteq> []" using assms by (simp add: strip_def)
  then have "\<not> is_space (hd ?r)" by (rule hd_dropWhile)
  moreover have "hd ?r \<in> set (strip s)" using \<open>?r \<noteq> []\<close> by (simp add: strip_def)
  ultimately show ?thesis by blast
qed

lemma space_is_space: "is_space (CHR '' '')"
  by (simp add: is_space_def)

lemma remove_spaces_strip_nonempty:
  assumes "strip s \<noteq> []"
  shows "remove_spaces (strip s) \<noteq> []" and "remove_spaces s \<noteq> []"
proof -
  obtain c where c: "c \<in> set (strip s)" "\<not> is_space c"
    using strip_nonempty_has_nonspace [OF assms] by blast
  then have ne: "c \<noteq> CHR '' ''" using space_is_space by auto
  with c(1) have "c \<in> set (remove_spaces (strip s))" by (simp add: remove_spaces_def)
  then show "remove_spaces (strip s) \<noteq> []" by auto
  from c(1) strip_subset have "c \<in> set s" by auto
  with ne have "c \<in> set (remove_spaces s)" by (simp add: remove_spaces_def)
  then show "remove_spaces s \<noteq> []" by auto
qed

lemma first_char_nonempty: "s \<noteq> [] \<Longrightarrow> \<exists>c. first_char s = Inr c"
  by (cases s) (auto simp: first_char_def)

lemma last_char_nonempty: "s \<noteq> [] \<Longrightarrow> \<exists>c. last_char s = Inr c"
  by (cases "rev s") (auto simp: last_char_def)

lemma has_invalid_syntax_total:
  assumes "remove_spaces e \<noteq> []"
  shows "has_invalid_syntax e = Inr True \<or> has_invalid_syntax e = Inr False"
proof -
  obtain c0 c1 where "first_char (remove_spaces e) = Inr c0" "last_char (remove_spaces e) = Inr c1"
    using first_char_nonempty [OF assms] last_char_nonempty [OF assms] by blast
  then show ?thesis by (simp add: has_invalid_syntax_def Let_def)
qed


text \<open>
  C10: \<^verbatim>\<open>validate_expression\<close> returns a boolean on every input and never raises.  The
  only operations that can raise are the two indexings in \<^verbatim>\<open>_has_invalid_syntax\<close>, and
  they are reached only after the character check has passed, on a string that is then
  not empty.
\<close>

theorem validate_expression_total:
  "(validate_expression v = Inr True \<or> validate_expression v = Inr False)
   \<and> (re_match charset_pattern (strip s) \<noteq> None \<longrightarrow>
        (\<exists>c0 c1. first_char (remove_spaces (strip s)) = Inr c0
                \<and> last_char (remove_spaces (strip s)) = Inr c1))"
proof (intro conjI impI)
  show "validate_expression v = Inr True \<or> validate_expression v = Inr False"
  proof (cases v)
    case (PStr s)
    show ?thesis
    proof (cases "re_match charset_pattern (strip s) = None")
      case True
      with PStr show ?thesis by (simp add: validate_expression_def Let_def)
    next
      case False
      then have "strip s \<noteq> []" using charset_match_iff by blast
      then have "remove_spaces (strip s) \<noteq> []" by (rule remove_spaces_strip_nonempty)
      then have "has_invalid_syntax (strip s) = Inr True \<or> has_invalid_syntax (strip s) = Inr False"
        by (rule has_invalid_syntax_total)
      with PStr False show ?thesis
        by (auto simp: validate_expression_def Let_def)
    qed
  qed (simp_all add: validate_expression_def)
next
  assume "re_match charset_pattern (strip s) \<noteq> None"
  then have "strip s \<noteq> []" using charset_match_iff by blast
  then have "remove_spaces (strip s) \<noteq> []" by (rule remove_spaces_strip_nonempty)
  then show "\<exists>c0 c1. first_char (remove_spaces (strip s)) = Inr c0
                \<and> last_char (remove_spaces (strip s)) = Inr c1"
    using first_char_nonempty last_char_nonempty by blast
qed

theorem validate_expression_total_witness:
  "re_match charset_pattern (strip '' 1 + 2 '') \<noteq> None
   \<and> (\<exists>c0 c1. first_char (remove_spaces (strip '' 1 + 2 '')) = Inr c0
              \<and> last_char (remove_spaces (strip '' 1 + 2 '')) = Inr c1)
   \<and> (validate_expression (PStr '' 1 + 2 '') = Inr True
      \<or> validate_expression (PStr '' 1 + 2 '') = Inr False)"
proof -
  have h: "re_match charset_pattern (strip '' 1 + 2 '') \<noteq> None" by code_simp
  show ?thesis
    using h validate_expression_total [of "PStr '' 1 + 2 ''" "'' 1 + 2 ''"] by blast
qed

lemma rx_OneOf_empty_iff:
  "rx (OneOf as) (p, s, g) = [] \<longleftrightarrow> s = [] \<or> \<not> in_set as (hd s)"
  by (cases s) (simp_all add: rx.simps)

lemma in_set_dash [simp]: "in_set [Lit CHR ''-''] c \<longleftrightarrow> c = CHR ''-''"
  by (simp add: in_set_def)

lemma in_set_digit [simp]: "in_set [Digit] c \<longleftrightarrow> is_digit c"
  by (simp add: in_set_def)

lemma search_from_found:
  "rx r (p + length u, s, []) \<noteq> [] \<Longrightarrow> search_from r p (u @ s) \<noteq> None"
proof (induction u arbitrary: p)
  case Nil
  then show ?case by (cases s) (auto split: list.splits)
next
  case (Cons a u)
  from Cons.prems have "rx r (Suc p + length u, s, []) \<noteq> []" by simp
  then have "search_from r (Suc p) (u @ s) \<noteq> None" by (rule Cons.IH)
  then show ?case by (auto split: list.splits)
qed

text \<open>Two dashes in a row always match the second or the third alternative.\<close>

lemma dashes_match:
  "rx operator_pattern (p, CHR ''-'' # CHR ''-'' # v, []) \<noteq> []"
proof -
  let ?dash = "[Lit CHR ''-'']"
  let ?n = "length (takeWhile (in_set ?dash) v)"
  let ?w = "dropWhile (in_set ?dash) v"
  have w: "drop ?n v = ?w" by (simp add: dropWhile_eq_drop)
  have run2: "run_length ?dash None (CHR ''-'' # CHR ''-'' # v) = Suc (Suc ?n)"
    and run1: "run_length ?dash None (CHR ''-'' # v) = Suc ?n"
    by (simp_all add: run_length_def)
  show ?thesis
  proof (cases "?w \<noteq> [] \<and> is_digit (hd ?w)")
    case True
    have a: "(p + Suc (Suc ?n), drop (Suc (Suc ?n)) (CHR ''-'' # CHR ''-'' # v), [])
        \<in> set (rx (Repeat ?dash 2 None) (p, CHR ''-'' # CHR ''-'' # v, []))"
      by (rule rx_RepeatI) (simp_all add: run2)
    have "rx (OneOf [Digit]) (p + Suc (Suc ?n), ?w, []) \<noteq> []"
      using True by (simp add: rx_OneOf_empty_iff)
    then have b: "(p + Suc (Suc ?n), drop (Suc (Suc ?n)) (CHR ''-'' # CHR ''-'' # v), [])
        \<in> set (rx (Ahead (OneOf [Digit]))
                 (p + Suc (Suc ?n), drop (Suc (Suc ?n)) (CHR ''-'' # CHR ''-'' # v), []))"
      by (simp add: rx_Ahead_mem w)
    have "(p + Suc (Suc ?n), drop (Suc (Suc ?n)) (CHR ''-'' # CHR ''-'' # v), [])
        \<in> set (rx operator_pattern (p, CHR ''-'' # CHR ''-'' # v, []))"
      unfolding operator_pattern_def seqs.simps rx_Alt_mem
      using rx_SeqI [OF a b] by blast
    then show ?thesis by auto
  next
    case False
    have a: "(Suc p, CHR ''-'' # v, []) \<in> set (rx (OneOf ?dash) (p, CHR ''-'' # CHR ''-'' # v, []))"
      by (simp add: rx_OneOf_mem)
    have b: "(Suc p + Suc ?n, drop (Suc ?n) (CHR ''-'' # v), [])
        \<in> set (rx (Repeat ?dash 1 None) (Suc p, CHR ''-'' # v, []))"
      by (rule rx_RepeatI) (simp_all add: run1)
    have "rx (OneOf [Digit]) (Suc p + Suc ?n, ?w, []) = []"
      using False by (auto simp: rx_OneOf_empty_iff)
    then have c: "(Suc p + Suc ?n, drop (Suc ?n) (CHR ''-'' # v), [])
        \<in> set (rx (NotAhead (OneOf [Digit])) (Suc p + Suc ?n, drop (Suc ?n) (CHR ''-'' # v), []))"
      by (simp add: rx_NotAhead_mem w)
    have "(Suc p + Suc ?n, drop (Suc ?n) (CHR ''-'' # v), [])
        \<in> set (rx operator_pattern (p, CHR ''-'' # CHR ''-'' # v, []))"
      unfolding operator_pattern_def seqs.simps rx_Alt_mem
      using rx_SeqI [OF a rx_SeqI [OF b c]] by blast
    then show ?thesis by auto
  qed
qed

lemma double_dash_found: "re_search operator_pattern (u @ ''--'' @ v) \<noteq> None"
  unfolding re_search_def using search_from_found [of operator_pattern 0 u "''--'' @ v"] dashes_match
  by simp

text \<open>
  C6, as the code has it: in the syntax check every run of two or more \<^verbatim>\<open>-\<close> is
  invalid, whether a digit follows it (third alternative of the operator pattern) or
  not (second alternative).  So an expression whose stripped form, spaces removed,
  contains \<^verbatim>\<open>--\<close> is never valid.
\<close>

theorem double_dash_is_invalid:
  "remove_spaces (strip s) = u @ ''--'' @ v \<Longrightarrow> validate_expression (PStr s) = Inr False"
proof -
  assume a: "remove_spaces (strip s) = u @ ''--'' @ v"
  have "re_search operator_pattern (remove_spaces (strip s)) \<noteq> None"
    unfolding a by (rule double_dash_found)
  then have "has_invalid_syntax (strip s) = Inr True"
    by (simp add: has_invalid_syntax_def Let_def)
  then show ?thesis by (simp add: validate_expression_def Let_def)
qed

lemma validated_chars:
  assumes "validate_expression (PStr s) = Inr True"
  shows "re_match charset_pattern (remove_spaces s) \<noteq> None"
proof -
  have m: "re_match charset_pattern (strip s) \<noteq> None"
    using assms by (auto simp: validate_expression_def Let_def split: if_splits)
  then have ne: "strip s \<noteq> []" and al: "\<forall>c \<in> set (strip s). in_set allowed_chars c"
    using charset_match_iff by blast+
  have "in_set allowed_chars c" if "c \<in> set (remove_spaces s)" for c
  proof -
    from that have "c \<in> set s" by (simp add: remove_spaces_def)
    then show ?thesis using al strip_rest_space space_allowed by blast
  qed
  moreover have "remove_spaces s \<noteq> []" using ne by (rule remove_spaces_strip_nonempty)
  ultimately show ?thesis using charset_match_iff by blast
qed

lemma float_to_int_raises:
  "float_to_int x = Raises e \<Longrightarrow>
     e = OverflowError \<or> e = ValueError ''cannot convert float NaN to integer''"
  by (cases x) auto

lemma round10_raises: "round10 x = Raises e \<Longrightarrow> e = OverflowError"
  by (cases x) (auto split: pyfloat.splits)

lemma operators_raises:
  "operators op = Some f \<Longrightarrow> f x y = Raises e \<Longrightarrow> e = ZeroDivisionError ''float division by zero''"
  by (auto simp: operators_def truediv_def split: if_splits)

lemma py_float_raises: "py_float s \<noteq> Raises e"
  by (simp add: py_float_def split: option.splits)

lemma bind_Raises:
  "bind m f = Raises e \<Longrightarrow> m = Raises e \<or> (\<exists>x. m = Returns x \<and> f x = Raises e)"
  by (cases m) (simp_all add: bind_def)

lemma evaluate_fast:
  assumes "remove_spaces s \<noteq> []"
    and "re_match fast_pattern (remove_spaces s) = Some [g1, op, g3]"
    and "py_float g1 = Returns l" and "py_float g3 = Returns r"
  shows "evaluate s =
    (case operators op of
       None \<Rightarrow> Raises (ValueError (''Unsupported operator: '' @ op))
     | Some f \<Rightarrow>
         if op = ''/'' \<and> float_is_zero r then Raises (ZeroDivisionError ''Division by zero'')
         else bind (f l r) (\<lambda>result.
           if is_integer result then bind (float_to_int result) (\<lambda>i. Returns (VInt i))
           else bind (round10 result) (\<lambda>r. Returns (VFloat r))))"
  using assms by (simp add: evaluate_def bind_def)

text \<open>Every exception that leaves \<^verbatim>\<open>evaluate\<close>, with the place it comes from.\<close>

lemma evaluate_raises:
  assumes ev: "evaluate s = Raises e"
  shows "(e = ValueError ''Empty expression'' \<and> remove_spaces s = [])
       \<or> (\<exists>op. e = ValueError (''Unsupported operator: '' @ op))
       \<or> (e = ZeroDivisionError ''Division by zero'' \<and> re_match fast_pattern (remove_spaces s) \<noteq> None)
       \<or> e = ZeroDivisionError ''float division by zero''
       \<or> e = OverflowError
       \<or> e = ValueError ''cannot convert float NaN to integer''
       \<or> (e = ValueError ''Expression contains invalid characters''
            \<and> re_match charset_pattern (remove_spaces s) = None)
       \<or> (e = ValueError ''Invalid expression format''
            \<and> re_match fast_pattern (remove_spaces s) = None)"
proof (cases "remove_spaces s = []")
  case True
  with ev have "e = ValueError ''Empty expression''" by (simp add: evaluate_def)
  with True show ?thesis by blast
next
  case ne: False
  show ?thesis
  proof (cases "re_match fast_pattern (remove_spaces s)")
    case None
    with ne ev have se: "safe_eval (remove_spaces s) = Raises e" by (simp add: evaluate_def)
    show ?thesis
    proof (cases "re_match charset_pattern (remove_spaces s) = None")
      case True
      with se have "e = ValueError ''Expression contains invalid characters''"
        by (simp add: safe_eval_def)
      with True show ?thesis by blast
    next
      case False
      with se have "e = ValueError ''Invalid expression format''"
        by (simp add: safe_eval_def split: outcome.splits)
      with None show ?thesis by blast
    qed
  next
    case (Some groups)
    then have m: "re_match fast_pattern (remove_spaces s) \<noteq> None" by simp
    from ne ev Some obtain g1 op g3 where g: "groups = [g1, op, g3]"
      by (auto simp: evaluate_def split: list.splits)
    from ev ne Some g obtain l r where l: "py_float g1 = Returns l" and r: "py_float g3 = Returns r"
      by (auto simp: evaluate_def bind_def py_float_raises split: outcome.splits)
    note fast = evaluate_fast [OF ne Some [unfolded g] l r]
    show ?thesis
    proof (cases "operators op")
      case None
      with ev fast have "e = ValueError (''Unsupported operator: '' @ op)" by simp
      then show ?thesis by blast
    next
      case f: (Some f)
      show ?thesis
      proof (cases "op = ''/'' \<and> float_is_zero r")
        case True
        with ev fast f have "e = ZeroDivisionError ''Division by zero''" by simp
        with m show ?thesis by blast
      next
        case False
        with ev fast f
        have "bind (f l r) (\<lambda>result.
                if is_integer result then bind (float_to_int result) (\<lambda>i. Returns (VInt i))
                else bind (round10 result) (\<lambda>r. Returns (VFloat r))) = Raises e"
          by simp
        from bind_Raises [OF this]
        have "e = ZeroDivisionError ''float division by zero'' \<or> e = OverflowError
              \<or> e = ValueError ''cannot convert float NaN to integer''"
        proof (elim disjE exE conjE)
          assume "f l r = Raises e"
          then show ?thesis using operators_raises [OF f] by blast
        next
          fix x assume "(if is_integer x then bind (float_to_int x) (\<lambda>i. Returns (VInt i))
                         else bind (round10 x) (\<lambda>r. Returns (VFloat r))) = Raises e"
          then have "float_to_int x = Raises e \<or> round10 x = Raises e"
            by (auto split: if_splits dest!: bind_Raises)
          then show ?thesis using float_to_int_raises round10_raises by blast
        qed
        then show ?thesis by blast
      qed
    qed
  qed
qed

text \<open>
  C1, as the code has it: the character rule of the validator implies that of the
  evaluator.  An expression that \<^verbatim>\<open>validate_expression\<close> accepts is not empty after the
  spaces are removed and passes the character check of \<^verbatim>\<open>_safe_eval\<close>, so
  \<^verbatim>\<open>evaluate\<close> fails on it neither with "Empty expression" nor with "Expression
  contains invalid characters".  The shape rules are not consistent; see the input
  \<^verbatim>\<open>")("\<close> below.
\<close>

theorem validated_characters_pass_evaluator:
  assumes "validate_expression (PStr s) = Inr True"
  shows "evaluate s \<noteq> Raises (ValueError ''Expression contains invalid characters'')
       \<and> evaluate s \<noteq> Raises (ValueError ''Empty expression'')"
proof -
  have c: "re_match charset_pattern (remove_spaces s) \<noteq> None"
    using assms by (rule validated_chars)
  then have ne: "remove_spaces s \<noteq> []" using charset_match_iff by blast
  show ?thesis
  proof (intro conjI notI)
    assume "evaluate s = Raises (ValueError ''Expression contains invalid characters'')"
    from evaluate_raises [OF this] c show False by auto
  next
    assume "evaluate s = Raises (ValueError ''Empty expression'')"
    from evaluate_raises [OF this] ne show False by auto
  qed
qed

section \<open>The evaluator on particular inputs\<close>

text \<open>
  C2: \<^verbatim>\<open>evaluate\<close> should return a number or fail with one of the four errors of the
  taxonomy.  On \<^verbatim>\<open>"()"\<close> the fast path does not match, the character check passes, and
  \<^verbatim>\<open>eval\<close> returns the empty tuple, which \<^verbatim>\<open>evaluate\<close> hands back: a value that is
  no number, against the annotation \<^verbatim>\<open>Union[float, int]\<close> of the method.
\<close>

theorem evaluate_returns_empty_tuple:
  "evaluate ''()'' = Returns VTuple"
  by code_simp

text \<open>
  C3: a division by zero met on the general path should fail with DivisionByZero.  On
  \<^verbatim>\<open>"(1)/0"\<close> the fast path does not match, \<^verbatim>\<open>eval\<close> raises ZeroDivisionError, and
  the bare \<^verbatim>\<open>except:\<close> of \<^verbatim>\<open>_safe_eval\<close> replaces it by the ValueError of an
  invalid format.
\<close>

theorem general_path_hides_division_by_zero:
  "re_match fast_pattern (remove_spaces ''(1)/0'') = None
   \<and> py_eval ''(1)/0'' = Raises (ZeroDivisionError ''division by zero'')
   \<and> evaluate ''(1)/0'' = Raises (ValueError ''Invalid expression format'')"
proof (intro conjI)
  show "re_match fast_pattern (remove_spaces ''(1)/0'') = None" by code_simp
  show "py_eval ''(1)/0'' = Raises (ZeroDivisionError ''division by zero'')" by code_simp
  show "evaluate ''(1)/0'' = Raises (ValueError ''Invalid expression format'')" by code_simp
qed

text \<open>
  C4: both paths should format the result alike, a whole value as an integer.  The fast
  path returns the integer 2 for \<^verbatim>\<open>"4.0 / 2.0"\<close>; the general path returns what
  \<^verbatim>\<open>eval\<close> gives, the float 2.0 for \<^verbatim>\<open>"(4.0)/2.0"\<close>.
\<close>

theorem general_path_keeps_whole_float:
  "evaluate ''4.0 / 2.0'' = Returns (VInt 2)
   \<and> evaluate ''(4.0)/2.0'' = Returns (VFloat (Finite 2))"
proof (intro conjI)
  show "evaluate ''4.0 / 2.0'' = Returns (VInt 2)" by code_simp
  show "evaluate ''(4.0)/2.0'' = Returns (VFloat (Finite 2))" by code_simp
qed

text \<open>
  C8: an input of whitespace alone should fail with EmptyExpression.  Only the character
  U+0020 is removed, so a tab is left, passes the character check as \<^verbatim>\<open>\s\<close>, and
  fails in \<^verbatim>\<open>eval\<close>: the error is that of an invalid format.
\<close>

theorem tab_is_not_an_empty_expression:
  "is_space (CHR 0x09)
   \<and> evaluate [CHR 0x09] = Raises (ValueError ''Invalid expression format'')"
proof (intro conjI)
  show "is_space (CHR 0x09)" by code_simp
  show "evaluate [CHR 0x09] = Raises (ValueError ''Invalid expression format'')" by code_simp
qed

theorem double_dash_is_invalid_witness:
  "remove_spaces (strip ''3--2'') = ''3'' @ ''--'' @ ''2''
   \<and> validate_expression (PStr ''3--2'') = Inr False"
proof -
  have h: "remove_spaces (strip ''3--2'') = ''3'' @ ''--'' @ ''2''" by code_simp
  show ?thesis using h double_dash_is_invalid [OF h] by simp
qed

text \<open>
  The claim C6 as stated fails on \<^verbatim>\<open>"3--2"\<close>: the run \<^verbatim>\<open>--\<close> is followed by a digit
  and every other check passes, yet the expression is invalid.
\<close>

theorem double_dash_before_digit_counterexample:
  "re_match charset_pattern (strip ''3--2'') \<noteq> None
   \<and> first_char (remove_spaces (strip ''3--2'')) = Inr CHR ''3''
   \<and> last_char (remove_spaces (strip ''3--2'')) = Inr CHR ''2''
   \<and> re_search decimal_pattern (remove_spaces (strip ''3--2'')) = None
   \<and> count_char (remove_spaces (strip ''3--2'')) CHR ''(''
       = count_char (remove_spaces (strip ''3--2'')) CHR '')''
   \<and> validate_expression (PStr ''3--2'') = Inr False"
proof (intro conjI)
  show "re_match charset_pattern (strip ''3--2'') \<noteq> None" by code_simp
  show "first_char (remove_spaces (strip ''3--2'')) = Inr CHR ''3''" by code_simp
  show "last_char (remove_spaces (strip ''3--2'')) = Inr CHR ''2''" by code_simp
  show "re_search decimal_pattern (remove_spaces (strip ''3--2'')) = None" by code_simp
  show "count_char (remove_spaces (strip ''3--2'')) CHR ''(''
       = count_char (remove_spaces (strip ''3--2'')) CHR '')''" by code_simp
  show "validate_expression (PStr ''3--2'') = Inr False" by code_simp
qed

theorem validated_characters_pass_evaluator_witness:
  "validate_expression (PStr ''(1 + 2) * 3'') = Inr True
   \<and> evaluate ''(1 + 2) * 3'' \<noteq> Raises (ValueError ''Expression contains invalid characters'')
   \<and> evaluate ''(1 + 2) * 3'' \<noteq> Raises (ValueError ''Empty expression'')"
proof -
  have h: "validate_expression (PStr ''(1 + 2) * 3'') = Inr True" by code_simp
  show ?thesis using h validated_characters_pass_evaluator [OF h] by simp
qed

text \<open>
  The claim C1 as stated fails on \<^verbatim>\<open>")("\<close>: the validator counts parentheses without
  regard to their order and accepts it, and \<^verbatim>\<open>evaluate\<close> fails on it with the ValueError
  of an invalid format.
\<close>

theorem validated_but_invalid_format_counterexample:
  "validate_expression (PStr '')('') = Inr True
   \<and> evaluate '')('' = Raises (ValueError ''Invalid expression format'')"
proof (intro conjI)
  show "validate_expression (PStr '')('') = Inr True" by code_simp
  show "evaluate '')('' = Raises (ValueError ''Invalid expression format'')" by code_simp
qed

text \<open>
  C7, as the code has it: \<^verbatim>\<open>"2 + + 3"\<close> is invalid for the validator, whose operator
  pattern finds \<^verbatim>\<open>++\<close>; that is what makes the calculate route reject it.
  \<^verbatim>\<open>evaluate\<close> itself does not reject it: the general path reads the second \<^verbatim>\<open>+\<close> as a
  unary plus and returns the integer 5.
\<close>

theorem double_plus_rejected_by_validator_only:
  "re_search operator_pattern (remove_spaces (strip ''2 + + 3'')) \<noteq> None
   \<and> validate_expression (PStr ''2 + + 3'') = Inr False
   \<and> evaluate ''2 + + 3'' = Returns (VInt 5)"
proof (intro conjI)
  show "re_search operator_pattern (remove_spaces (strip ''2 + + 3'')) \<noteq> None" by code_simp
  show "validate_expression (PStr ''2 + + 3'') = Inr False" by code_simp
  show "evaluate ''2 + + 3'' = Returns (VInt 5)" by code_simp
qed

theorem double_plus_rejected_by_validator_only_witness:
  "validate_expression (PStr ''2 + + 3'') \<noteq> Inr True
   \<and> evaluate ''2 + + 3'' = Returns (VInt (2 + 3))"
  using double_plus_rejected_by_validator_only by simp

text \<open>The claim C7 as stated fails in its second half: \<^verbatim>\<open>evaluate\<close> returns a number.\<close>

theorem evaluate_double_plus_counterexample:
  "py_eval (remove_spaces ''2 + + 3'') = Returns (VInt 5)
   \<and> evaluate ''2 + + 3'' \<noteq> Raises (ValueError ''Invalid expression format'')"
proof (intro conjI)
  show "py_eval (remove_spaces ''2 + + 3'') = Returns (VInt 5)" by code_simp
  show "evaluate ''2 + + 3'' \<noteq> Raises (ValueError ''Invalid expression format'')" by code_simp
qed

end
